theory Spec2Isabelle
  imports Main "HOL-Library.Char_ord" "HOL-Library.List_Lexorder"
begin

section \<open>Resource pool (src/core/pool/resource.go)\<close>

text \<open>
  A resource is a Go \<open>interface{}\<close> value: \<open>None\<close> is the nil interface, \<open>Some r\<close> an
  instance. The factory is an external collaborator with its own state, so the outcome of every
  \<open>factory.Create()\<close> and \<open>factory.Destroy()\<close> call is an input of the operation that makes
  the call: \<open>Inl e\<close> is a returned error with text \<open>e\<close>. The error messages of the pool are
  constructors of \<open>pool_error\<close>, in the order in which the source produces them.
  The counters are Go \<open>int\<close>s (64 bit); they are modelled as unbounded integers, every
  operation moves a counter by one.
\<close>

type_synonym 'r resource = "'r option"

type_synonym 'r create_result = "string + 'r resource"

datatype pool_error =
    FactoryNil
  | InvalidConfig int int
  | InitialCreateFailed string
  | PoolClosed
  | CreateFailed string
  | PoolExhausted
  | ResourceNil
  | DestroyFailed string

record PoolConfig =
  MinSize :: int
  MaxSize :: int
  RefillSize :: int

text \<open>
  \<open>resources\<close> is the content of the buffered channel, oldest element first; its capacity is
  fixed to \<open>config.MaxSize\<close> when the pool is made and \<open>config\<close> is never written again.
  \<open>destroyed\<close> is the trace of the instances handed to \<open>factory.Destroy\<close>, in call order.
  \<open>closeOnce\<close> is represented by \<open>closed\<close>: the flag is written only inside
  \<open>closeOnce.Do\<close>.
\<close>

record 'r ResourcePool =
  config :: PoolConfig
  resources :: "'r resource list"
  totalCount :: int
  inUseCount :: int
  closed :: bool
  destroyed :: "'r resource list"

definition chan_cap :: "'r ResourcePool \<Rightarrow> int" where
  "chan_cap p = MaxSize (config p)"

text \<open>\<open>Close\<close>: the first call sets the flag and drains the channel into \<open>factory.Destroy\<close>.\<close>

definition Close :: "'r ResourcePool \<Rightarrow> 'r ResourcePool" where
  "Close p =
     (if closed p then p
      else p\<lparr>closed := True, resources := [], destroyed := destroyed p @ resources p\<rparr>)"

text \<open>
  The initialisation loop of \<open>NewResourcePool\<close>, \<open>for i := 0; i < config.MinSize; i++\<close>.
  The send is a blocking one; the channel holds \<open>i\<close> elements there and \<open>i < MinSize \<le> MaxSize\<close>,
  so it has room.
\<close>

function init_loop ::
  "(nat \<Rightarrow> 'r create_result) \<Rightarrow> int \<Rightarrow> 'r ResourcePool \<Rightarrow> pool_error + 'r ResourcePool" where
  "init_loop cr i p =
     (if i < MinSize (config p) then
        (case cr (nat i) of
           Inl e \<Rightarrow> Inl (InitialCreateFailed e)
         | Inr r \<Rightarrow>
             init_loop cr (i + 1)
               (p\<lparr>resources := resources p @ [r], totalCount := totalCount p + 1\<rparr>))
      else Inr p)"
  by pat_completeness auto
termination
  by (relation "measure (\<lambda>(cr, i, p). nat (MinSize (config p) - i))") auto

text \<open>
  \<open>NewResourcePool\<close>: the factory is \<open>None\<close> for a nil factory, else the outcomes of its
  \<open>Create\<close> calls by call number.
\<close>

definition NewResourcePool ::
  "(nat \<Rightarrow> 'r create_result) option \<Rightarrow> PoolConfig \<Rightarrow> pool_error + 'r ResourcePool" where
  "NewResourcePool factory cfg =
     (case factory of
        None \<Rightarrow> Inl FactoryNil
      | Some cr \<Rightarrow>
          if MinSize cfg < 0 \<or> MaxSize cfg < MinSize cfg
          then Inl (InvalidConfig (MinSize cfg) (MaxSize cfg))
          else init_loop cr 0
                 \<lparr>config = cfg, resources = [], totalCount = 0, inUseCount = 0,
                  closed = False, destroyed = []\<rparr>)"

text \<open>
  \<open>Get\<close>: \<open>c\<close> is the outcome of \<open>factory.Create()\<close>, used only on the branch that calls it.
  The result is the returned pair and the pool afterwards.
\<close>

definition Get ::
  "'r create_result \<Rightarrow> 'r ResourcePool \<Rightarrow> (pool_error + 'r resource) \<times> 'r ResourcePool" where
  "Get c p =
     (if closed p then (Inl PoolClosed, p)
      else
        (case resources p of
           r # rs \<Rightarrow> (Inr r, p\<lparr>resources := rs, inUseCount := inUseCount p + 1\<rparr>)
         | [] \<Rightarrow>
             if totalCount p < MaxSize (config p) then
               (case c of
                  Inl e \<Rightarrow> (Inl (CreateFailed e), p)
                | Inr r \<Rightarrow>
                    (Inr r, p\<lparr>totalCount := totalCount p + 1, inUseCount := inUseCount p + 1\<rparr>))
             else (Inl PoolExhausted, p)))"

text \<open>
  \<open>Put\<close>: \<open>d\<close> is the outcome of \<open>factory.Destroy(resource)\<close> (\<open>None\<close>: no error), used only
  on the branches that call it; \<open>Put\<close> returns that outcome.
\<close>

definition Put ::
  "string option \<Rightarrow> 'r resource \<Rightarrow> 'r ResourcePool \<Rightarrow> pool_error option \<times> 'r ResourcePool" where
  "Put d resource p =
     (if resource = None then (Some ResourceNil, p)
      else if closed p then
        (map_option DestroyFailed d, p\<lparr>destroyed := destroyed p @ [resource]\<rparr>)
      else
        (let p1 = p\<lparr>inUseCount := inUseCount p - 1\<rparr> in
         if int (length (resources p1)) < chan_cap p1 then
           (None, p1\<lparr>resources := resources p1 @ [resource]\<rparr>)
         else
           (map_option DestroyFailed d,
            p1\<lparr>totalCount := totalCount p1 - 1, destroyed := destroyed p1 @ [resource]\<rparr>)))"

text \<open>
  The loop of \<open>refillPool\<close>,
  \<open>for i := 0; i < needed && p.totalCount < p.config.MaxSize; i++\<close>: a failed \<open>Create\<close> is
  logged and the loop continues; a created instance is sent without blocking, and destroyed
  when the channel is full.
\<close>

function refill_loop ::
  "(nat \<Rightarrow> 'r create_result) \<Rightarrow> int \<Rightarrow> int \<Rightarrow> 'r ResourcePool \<Rightarrow> 'r ResourcePool" where
  "refill_loop cr i needed p =
     (if i < needed \<and> totalCount p < MaxSize (config p) then
        (case cr (nat i) of
           Inl e \<Rightarrow> refill_loop cr (i + 1) needed p
         | Inr r \<Rightarrow>
             if int (length (resources p)) < chan_cap p then
               refill_loop cr (i + 1) needed
                 (p\<lparr>resources := resources p @ [r], totalCount := totalCount p + 1\<rparr>)
             else
               refill_loop cr (i + 1) needed (p\<lparr>destroyed := destroyed p @ [r]\<rparr>))
      else p)"
  by pat_completeness auto
termination
  by (relation "measure (\<lambda>(cr, i, needed, p). nat (needed - i))") auto

definition refillPool :: "(nat \<Rightarrow> 'r create_result) \<Rightarrow> 'r ResourcePool \<Rightarrow> 'r ResourcePool" where
  "refillPool cr p =
     (if closed p then p
      else
        (let currentAvailable = int (length (resources p)) in
         if currentAvailable < MinSize (config p) then
           (let needed = MinSize (config p) - currentAvailable;
                needed = (if needed > RefillSize (config p) then RefillSize (config p) else needed)
            in refill_loop cr 0 needed p)
         else p))"

text \<open>
  A run of the pool: the calls made on it one after the other. The calls do not overlap; what
  two calls do to the counters while both are under way is outside this model.
\<close>

datatype 'r pool_op =
    OpGet "'r create_result"
  | OpPut "string option" "'r resource"
  | OpRefill "nat \<Rightarrow> 'r create_result"

fun pool_step :: "'r ResourcePool \<Rightarrow> 'r pool_op \<Rightarrow> 'r ResourcePool" where
  "pool_step p (OpGet c) = snd (Get c p)"
| "pool_step p (OpPut d r) = snd (Put d r p)"
| "pool_step p (OpRefill cr) = refillPool cr p"

definition pool_run :: "'r ResourcePool \<Rightarrow> 'r pool_op list \<Rightarrow> 'r ResourcePool" where
  "pool_run p ops = foldl pool_step p ops"

definition idle :: "'r ResourcePool \<Rightarrow> int" where
  "idle p = int (length (resources p))"

definition pool_inv :: "'r ResourcePool \<Rightarrow> bool" where
  "pool_inv p \<longleftrightarrow> idle p + inUseCount p = totalCount p \<and> totalCount p \<le> MaxSize (config p)"

text \<open>
  Concrete pools for the examples: a configuration with one warm instance and room for two,
  the pool \<open>NewResourcePool\<close> builds from it when the factory hands out the instances
  \<open>0, 1, 2, \<dots>\<close>, and that pool after one lease.
\<close>

definition example_config :: PoolConfig where
  "example_config = \<lparr>MinSize = 1, MaxSize = 2, RefillSize = 1\<rparr>"

definition example_factory :: "nat \<Rightarrow> nat create_result" where
  "example_factory i = Inr (Some i)"

definition example_pool :: "nat ResourcePool" where
  "example_pool =
     \<lparr>config = example_config, resources = [Some 0], totalCount = 1, inUseCount = 0,
      closed = False, destroyed = []\<rparr>"

definition example_leased :: "nat ResourcePool" where
  "example_leased = snd (Get (Inl ''unused'') example_pool)"

section \<open>Think tags of the vision provider (src/core/providers/vlllm/vlllm.go)\<close>

text \<open>
  \<open>handleThinkTags\<close>: the content to forward (\<open>''''\<close>: nothing) and the new value of
  \<open>isActive\<close>.
\<close>

definition handleThinkTags :: "string \<Rightarrow> bool \<Rightarrow> string \<times> bool" where
  "handleThinkTags content isActive =
     (if content = '''' then ('''', isActive)
      else if content = ''<think>'' then ('''', False)
      else if content = ''</think>'' then ('''', True)
      else if \<not> isActive then ('''', isActive)
      else (content, isActive))"

text \<open>
  The receive loop of \<open>responseWithOpenAIVision\<close>, from the point where \<open>isActive\<close> is
  declared. The input is the sequence of chunks \<open>stream.Recv()\<close> returns before its first
  error: \<open>None\<close> for a chunk without choices, else \<open>Choices[0].Delta.Content\<close>. The result is
  the sequence of strings sent on \<open>responseChan\<close>.
\<close>

fun openai_loop :: "bool \<Rightarrow> string option list \<Rightarrow> string list" where
  "openai_loop isActive [] = []"
| "openai_loop isActive (None # rest) = openai_loop isActive rest"
| "openai_loop isActive (Some content # rest) =
     (if content \<noteq> '''' then
        (case handleThinkTags content isActive of
           (content', isActive') \<Rightarrow>
             (if content' \<noteq> '''' then [content'] else []) @ openai_loop isActive' rest)
      else openai_loop isActive rest)"

text \<open>
  The receive loop of \<open>responseWithOllamaVision\<close>: the decoded responses are pairs of
  \<open>Message.Content\<close> and \<open>Done\<close>; the loop ends after the first response with \<open>Done\<close>, or
  when decoding fails (the end of the list).
\<close>

fun ollama_loop :: "bool \<Rightarrow> (string \<times> bool) list \<Rightarrow> string list" where
  "ollama_loop isActive [] = []"
| "ollama_loop isActive ((content, done) # rest) =
     (if content \<noteq> '''' then
        (case handleThinkTags content isActive of
           (content', isActive') \<Rightarrow>
             (if content' \<noteq> '''' then [content'] else [])
             @ (if done then [] else ollama_loop isActive' rest))
      else (if done then [] else ollama_loop isActive rest))"

text \<open>The responses the Ollama loop reads: up to and including the first with \<open>Done\<close>.\<close>

fun upto_done :: "(string \<times> bool) list \<Rightarrow> (string \<times> bool) list" where
  "upto_done [] = []"
| "upto_done ((content, done) # rest) = (content, done) # (if done then [] else upto_done rest)"

section \<open>Connection upgrade (src/core/websocket_server.go)\<close>

text \<open>\<open>strings.HasPrefix\<close> and \<open>strings.TrimPrefix\<close> of the Go library.\<close>

definition HasPrefix :: "string \<Rightarrow> string \<Rightarrow> bool" where
  "HasPrefix s pre = (take (length pre) s = pre)"

definition TrimPrefix :: "string \<Rightarrow> string \<Rightarrow> string" where
  "TrimPrefix s pre = (if HasPrefix s pre then drop (length pre) s else s)"

text \<open>
  A request is seen through \<open>r.Header.Get\<close>: the value of a header, \<open>''''\<close> when it is absent.
  \<open>auth.AuthToken.VerifyToken\<close> is not part of the sources at hand; it is a parameter, from the
  configured secret and the token to \<open>(isValid, deviceID, err)\<close>. The log line written tells the
  branch taken.
\<close>

type_synonym http_header = "string \<Rightarrow> string"

type_synonym token_verifier = "string \<Rightarrow> string \<Rightarrow> bool \<times> string \<times> string option"

datatype auth_log =
    MissingAuthorization
  | MalformedAuthorization
  | TokenRejected "string option"
  | DeviceIdMismatch string string
  | TokenVerified string

definition verifyToken :: "token_verifier \<Rightarrow> string \<Rightarrow> http_header \<Rightarrow> bool \<times> auth_log" where
  "verifyToken VerifyToken secret header =
     (let authHeader = header ''Authorization'' in
      if authHeader = '''' then (True, MissingAuthorization)
      else if \<not> HasPrefix authHeader ''Bearer '' then (True, MalformedAuthorization)
      else
        (let token = TrimPrefix authHeader ''Bearer '' in
         case VerifyToken secret token of
           (isValid, deviceID, err) \<Rightarrow>
             if err \<noteq> None \<or> \<not> isValid then (True, TokenRejected err)
             else
               (let requestDeviceID = header ''Device-Id'' in
                if requestDeviceID \<noteq> deviceID then (True, DeviceIdMismatch requestDeviceID deviceID)
                else (True, TokenVerified deviceID))))"

text \<open>
  \<open>handleWebSocket\<close>. A connection is named by the text \<open>%p\<close> prints for it, which is also the
  client id. What the handler does to the outside is a trace of events: an HTTP error reply, log
  lines, closing the connection, a message written to the connection, and the start of the
  goroutine that runs \<open>handler.Handle\<close>. The outcomes of \<open>upgrader.Upgrade\<close> and of
  \<open>poolManager.GetProviderSet\<close> are inputs (\<open>Inl\<close>: the error). The server state is the map
  \<open>activeConnections\<close>, from client id to the connection context, here the provider set leased
  for it.
\<close>

type_synonym Connection = string

datatype ws_event =
    HttpError nat string
  | LogUpgradeFailed string
  | LogLeaseFailed string
  | ConnClose Connection
  | ConnWriteMessage Connection string
  | LogConnected string
  | GoHandle Connection

text \<open>
  The fields of \<open>configs.Config\<close> that the modelled code reads: \<open>Server.Auth.Enabled\<close>,
  \<open>Server.Token\<close> and \<open>Server.Device.HmacKey\<close>.
\<close>

record Config =
  Server_Auth_Enabled :: bool
  Server_Token :: string
  Server_Device_HmacKey :: string

definition handleWebSocket ::
  "token_verifier \<Rightarrow> Config \<Rightarrow> http_header \<Rightarrow> string + Connection \<Rightarrow> string + 'ps \<Rightarrow>
   (string \<rightharpoonup> 'ps) \<Rightarrow> ws_event list \<times> (string \<rightharpoonup> 'ps)" where
  "handleWebSocket VerifyToken cfg header upgrade lease activeConnections =
     (if Server_Auth_Enabled cfg \<and> \<not> fst (verifyToken VerifyToken (Server_Token cfg) header)
      then ([HttpError 401 ''Unauthorized''], activeConnections)
      else
        (case upgrade of
           Inl err \<Rightarrow> ([LogUpgradeFailed err], activeConnections)
         | Inr conn \<Rightarrow>
             (let clientID = conn in
              case lease of
                Inl err \<Rightarrow> ([LogLeaseFailed err, ConnClose conn], activeConnections)
              | Inr providerSet \<Rightarrow>
                  ([LogConnected clientID, GoHandle conn],
                   activeConnections(clientID \<mapsto> providerSet)))))"

text \<open>The value of \<open>isActive\<close> after the OpenAI loop has read the given chunks.\<close>

fun active_after :: "bool \<Rightarrow> string option list \<Rightarrow> bool" where
  "active_after isActive [] = isActive"
| "active_after isActive (None # rest) = active_after isActive rest"
| "active_after isActive (Some content # rest) =
     active_after (if content \<noteq> '''' then snd (handleThinkTags content isActive) else isActive) rest"

text \<open>Inputs for the examples: a verifier that accepts nothing, a request without headers.\<close>

definition reject_all :: token_verifier where
  "reject_all secret token = (False, '''', Some ''signature is invalid'')"

definition no_headers :: http_header where
  "no_headers key = ''''"

definition example_server_config :: Config where
  "example_server_config =
     \<lparr>Server_Auth_Enabled = True, Server_Token = ''s3cret'', Server_Device_HmacKey = ''k3y''\<rparr>"

section \<open>Devices and activation (models.go, the device service with GetDeviceToken)\<close>

text \<open>
  \<open>models.Device\<close>. Times are integers; \<open>ActivatedAt\<close> is \<open>None\<close> for the nil pointer.
\<close>

record Device =
  ID :: nat
  SerialNumber :: string
  DeviceID :: string
  ClientID :: string
  Token :: string
  ActivationCode :: string
  Challenge :: string
  ActivationVersion :: int
  Activated :: bool
  ActivatedAt :: "int option"
  LastSeen :: int
  CreatedAt :: int
  UpdatedAt :: int

text \<open>\<open>hex.EncodeToString\<close> of the Go library: two lower-case digits for every byte.\<close>

definition hex_digit :: "nat \<Rightarrow> char" where
  "hex_digit n = ''0123456789abcdef'' ! n"

definition hex_EncodeToString :: "string \<Rightarrow> string" where
  "hex_EncodeToString bytes =
     concat (map (\<lambda>c. [hex_digit (of_char c div 16), hex_digit (of_char c mod 16)]) bytes)"

text \<open>
  What the service is given from outside: the library function HMAC-SHA256 (key, then message,
  to the 32 bytes of the code), \<open>auth.AuthToken.GenerateToken\<close> (absent from the sources at
  hand; from the configured secret and the device id to a token or an error), the clock, and the
  faults of the database: \<open>db_fault k\<close> is the error, if any, that the \<open>k\<close>-th database
  statement of the current call comes back with for a reason other than a missing record.
\<close>

record service_env =
  hmac_sha256 :: "string \<Rightarrow> string \<Rightarrow> string"
  GenerateToken :: "string \<Rightarrow> string \<Rightarrow> string + string"
  now :: int
  db_fault :: "nat \<Rightarrow> string option"

text \<open>
  \<open>Device.VerifyHMAC\<close>; \<open>hmac.Equal\<close> is equality of the two byte strings.
\<close>

definition VerifyHMAC :: "service_env \<Rightarrow> string \<Rightarrow> string \<Rightarrow> string \<Rightarrow> bool" where
  "VerifyHMAC env challenge hmacHex hmacKey =
     (let expectedMAC = hmac_sha256 env hmacKey challenge;
          expectedHex = hex_EncodeToString expectedMAC
      in hmacHex = expectedHex)"

text \<open>
  The table \<open>devices\<close> is the list of its rows in the order of the primary key, which is the
  order \<open>First\<close> reads them in; a condition \<open>column = ?\<close> is equality of the strings.
  \<open>Where(\<dots>).First(&device).Error\<close> and \<open>Model(&device).Updates(\<dots>).Error\<close>:
\<close>

datatype db_error = ErrRecordNotFound | DBFailure string

definition First :: "string option \<Rightarrow> (Device \<Rightarrow> bool) \<Rightarrow> Device list \<Rightarrow> db_error + Device" where
  "First fault cond rows =
     (case fault of
        Some e \<Rightarrow> Inl (DBFailure e)
      | None \<Rightarrow> (case find cond rows of None \<Rightarrow> Inl ErrRecordNotFound | Some d \<Rightarrow> Inr d))"

definition Updates ::
  "string option \<Rightarrow> Device \<Rightarrow> (Device \<Rightarrow> Device) \<Rightarrow> Device list \<Rightarrow> db_error + Device list" where
  "Updates fault device change rows =
     (case fault of
        Some e \<Rightarrow> Inl (DBFailure e)
      | None \<Rightarrow> Inr (map (\<lambda>d. if ID d = ID device then change d else d) rows))"

datatype service_error =
    Database db_error
  | InvalidChallenge
  | HmacKeyNotConfigured
  | InvalidHMAC
  | DeviceNotActivated
  | TokenGeneration string

text \<open>
  \<open>IdentifyDevice\<close>: by serial number, then by device id (the MAC address), then by client id;
  a lookup is skipped when its key is empty, and a failure other than a missing record ends the
  search. The three statements have the fault numbers 0, 1 and 2.
\<close>

definition IdentifyDevice ::
  "service_env \<Rightarrow> string \<Rightarrow> string \<Rightarrow> string \<Rightarrow> Device list \<Rightarrow> db_error + Device" where
  "IdentifyDevice env serialNumber deviceID clientID rows =
     (let bySerial =
            (if serialNumber \<noteq> ''''
             then First (db_fault env 0) (\<lambda>d. SerialNumber d = serialNumber) rows
             else Inl ErrRecordNotFound) in
      if bySerial \<noteq> Inl ErrRecordNotFound then bySerial
      else
        (let byDevice =
               (if deviceID \<noteq> ''''
                then First (db_fault env 1) (\<lambda>d. DeviceID d = deviceID) rows
                else Inl ErrRecordNotFound) in
         if byDevice \<noteq> Inl ErrRecordNotFound then byDevice
         else
           (let byClient =
                  (if clientID \<noteq> ''''
                   then First (db_fault env 2) (\<lambda>d. ClientID d = clientID) rows
                   else Inl ErrRecordNotFound) in
            if byClient \<noteq> Inl ErrRecordNotFound then byClient
            else Inl ErrRecordNotFound)))"

text \<open>
  \<open>ActivateDeviceAndGetToken\<close>: the result and the table afterwards. The lookup is statement
  0, the update statement 1.
\<close>

definition ActivateDeviceAndGetToken ::
  "service_env \<Rightarrow> Config \<Rightarrow> nat \<Rightarrow> string \<Rightarrow> string \<Rightarrow> Device list \<Rightarrow>
   (service_error + string) \<times> Device list" where
  "ActivateDeviceAndGetToken env cfg deviceID challenge hmacHex rows =
     (case First (db_fault env 0) (\<lambda>d. ID d = deviceID) rows of
        Inl err \<Rightarrow> (Inl (Database err), rows)
      | Inr device \<Rightarrow>
          if Challenge device \<noteq> challenge then (Inl InvalidChallenge, rows)
          else
            (let hmacKey = Server_Device_HmacKey cfg in
             if hmacKey = '''' then (Inl HmacKeyNotConfigured, rows)
             else if \<not> VerifyHMAC env challenge hmacHex hmacKey then (Inl InvalidHMAC, rows)
             else
               (case Updates (db_fault env 1) device
                       (\<lambda>d. d\<lparr>Activated := True, ActivatedAt := Some (now env),
                               LastSeen := now env, UpdatedAt := now env\<rparr>) rows of
                  Inl err \<Rightarrow> (Inl (Database err), rows)
                | Inr rows' \<Rightarrow>
                    (case GenerateToken env (Server_Token cfg) (DeviceID device) of
                       Inl err \<Rightarrow> (Inl (TokenGeneration err), rows')
                     | Inr token \<Rightarrow> (Inr token, rows')))))"

text \<open>
  \<open>GetDeviceToken\<close>: the statements of \<open>IdentifyDevice\<close>, then the update of \<open>last_seen\<close> as
  statement 3, whose error the code does not look at.
\<close>

definition GetDeviceToken ::
  "service_env \<Rightarrow> Config \<Rightarrow> string \<Rightarrow> string \<Rightarrow> string \<Rightarrow> string \<Rightarrow> Device list \<Rightarrow>
   (service_error + string) \<times> Device list" where
  "GetDeviceToken env cfg deviceID clientID challenge hmacHex rows =
     (case IdentifyDevice env '''' deviceID clientID rows of
        Inl err \<Rightarrow> (Inl (Database err), rows)
      | Inr device \<Rightarrow>
          if \<not> Activated device then (Inl DeviceNotActivated, rows)
          else if Challenge device \<noteq> challenge then (Inl InvalidChallenge, rows)
          else
            (let hmacKey = Server_Device_HmacKey cfg in
             if hmacKey = '''' then (Inl HmacKeyNotConfigured, rows)
             else if \<not> VerifyHMAC env challenge hmacHex hmacKey then (Inl InvalidHMAC, rows)
             else
               (let rows' =
                      (case Updates (db_fault env 3) device
                              (\<lambda>d. d\<lparr>LastSeen := now env, UpdatedAt := now env\<rparr>) rows of
                         Inl err \<Rightarrow> rows
                       | Inr updated \<Rightarrow> updated) in
                case GenerateToken env (Server_Token cfg) (DeviceID device) of
                  Inl err \<Rightarrow> (Inl (TokenGeneration err), rows')
                | Inr token \<Rightarrow> (Inr token, rows'))))"
section \<open>OTA endpoint (the ota package)\<close>

text \<open>
  \<open>strings.HasSuffix\<close>, \<open>strings.TrimSuffix\<close> and \<open>strings.Split\<close> with a separator of one
  byte, of the Go library; \<open>Split\<close> of the empty string is the list of one empty string.
\<close>

definition HasSuffix :: "string \<Rightarrow> string \<Rightarrow> bool" where
  "HasSuffix s suf = (length suf \<le> length s \<and> drop (length s - length suf) s = suf)"

definition TrimSuffix :: "string \<Rightarrow> string \<Rightarrow> string" where
  "TrimSuffix s suf = (if HasSuffix s suf then take (length s - length suf) s else s)"

fun Split :: "string \<Rightarrow> char \<Rightarrow> string list" where
  "Split [] sep = [[]]"
| "Split (c # s) sep =
     (if c = sep then [] # Split s sep
      else (case Split s sep of [] \<Rightarrow> [[c]] | part # parts \<Rightarrow> (c # part) # parts))"

text \<open>
  \<open>filepath.Base\<close> of the Go library, for the separator \<open>/\<close>: the last element of the path,
  trailing separators removed first; \<open>.\<close> for the empty path and \<open>/\<close> for a path of
  separators only.
\<close>

definition Base :: "string \<Rightarrow> string" where
  "Base path =
     (if path = '''' then ''.''
      else
        (let stripped = rev (dropWhile (\<lambda>c. c = CHR ''/'') (rev path));
             last_element = rev (takeWhile (\<lambda>c. c \<noteq> CHR ''/'') (rev stripped))
         in if last_element = '''' then ''/'' else last_element))"

text \<open>
  \<open>versionLess\<close>. The components of a file name are what the first two lines compute; the
  loop compares them by index; strings compare as Go compares them, byte by byte.
\<close>

definition version_components :: "string \<Rightarrow> string list" where
  "version_components a = Split (TrimSuffix (Base a) ''.bin'') (CHR ''.'')"

function versionLess_loop :: "string list \<Rightarrow> string list \<Rightarrow> nat \<Rightarrow> bool" where
  "versionLess_loop aV bV i =
     (if i < length aV \<and> i < length bV then
        (if aV ! i \<noteq> bV ! i then aV ! i < bV ! i else versionLess_loop aV bV (i + 1))
      else length aV < length bV)"
  by pat_completeness auto
termination
  by (relation "measure (\<lambda>(aV, bV, i). length aV - i)") auto

definition versionLess :: "string \<Rightarrow> string \<Rightarrow> bool" where
  "versionLess a b =
     (let aV = version_components a; bV = version_components b in versionLess_loop aV bV 0)"

text \<open>
  \<open>sort.Slice\<close> of the Go library promises a permutation ordered by the comparison it is
  given; it is modelled by insertion sort. The comparison of the source takes two indices of
  the slice under sorting, here the two elements themselves.
\<close>

fun insert_by :: "('a \<Rightarrow> 'a \<Rightarrow> bool) \<Rightarrow> 'a \<Rightarrow> 'a list \<Rightarrow> 'a list" where
  "insert_by cmp x [] = [x]"
| "insert_by cmp x (y # ys) = (if cmp y x then y # insert_by cmp x ys else x # y # ys)"

definition sort_Slice :: "('a \<Rightarrow> 'a \<Rightarrow> bool) \<Rightarrow> 'a list \<Rightarrow> 'a list" where
  "sort_Slice cmp xs = foldr (insert_by cmp) xs []"

text \<open>
  \<open>handleOtaPost\<close>. The inputs are the request headers, the outcome of \<open>ShouldBindJSON\<close>
  (\<open>Inl\<close>: the error, \<open>Inr\<close>: \<open>body.Application.Version\<close>), the paths \<open>filepath.Glob\<close> finds
  for \<open>ota_bin/*.bin\<close>, and the table of devices; the clock counts nanoseconds. A token left
  empty is omitted from the JSON reply.
\<close>

record OtaFirmwareResponse =
  ServerTime_Timestamp :: int
  ServerTime_TimezoneOffset :: int
  Firmware_Version :: string
  Firmware_URL :: string
  Websocket_URL :: string
  Websocket_Token :: string

datatype ota_error = MissingDeviceId | BindFailed string

datatype ota_reply = StatusBadRequest ota_error | StatusOK OtaFirmwareResponse

definition latest_bin :: "string list \<Rightarrow> string" where
  "latest_bin bins = hd (sort_Slice (\<lambda>bin_i bin_j. versionLess bin_j bin_i) bins)"

definition handleOtaPost ::
  "service_env \<Rightarrow> Config \<Rightarrow> string \<Rightarrow> http_header \<Rightarrow> string + string \<Rightarrow> string list \<Rightarrow>
   Device list \<Rightarrow> ota_reply" where
  "handleOtaPost env cfg updateURL header body bins rows =
     (let deviceID = header ''device-id'' in
      if deviceID = '''' then StatusBadRequest MissingDeviceId
      else
        (case body of
           Inl err \<Rightarrow> StatusBadRequest (BindFailed err)
         | Inr body_version \<Rightarrow>
             (let version = (if body_version = '''' then ''1.0.0'' else body_version);
                  (version, firmwareURL) =
                    (if length bins > 0 then
                       (let latest = Base (latest_bin bins)
                        in (TrimSuffix latest ''.bin'', ''/ota_bin/'' @ latest))
                     else (version, ''''));
                  clientID = header ''client-id'';
                  token =
                    (case IdentifyDevice env '''' deviceID clientID rows of
                       Inl err \<Rightarrow> ''''
                     | Inr device \<Rightarrow>
                         if Activated device then
                           (case GenerateToken env (Server_Token cfg) (DeviceID device) of
                              Inl err \<Rightarrow> ''''
                            | Inr token \<Rightarrow> token)
                         else '''')
              in StatusOK
                   \<lparr>ServerTime_Timestamp = now env div 1000000,
                    ServerTime_TimezoneOffset = 8 * 60,
                    Firmware_Version = version,
                    Firmware_URL = firmwareURL,
                    Websocket_URL = updateURL,
                    Websocket_Token = token\<rparr>)))"

text \<open>
  Data for the examples: an environment without database faults whose stand-in for
  HMAC-SHA256 joins the message to the key, a device that has registered and not activated,
  the same device once activated, and an environment in which the update statement of the
  activation fails.
\<close>

definition example_env :: service_env where
  "example_env =
     \<lparr>hmac_sha256 = (\<lambda>key message. message @ key),
      GenerateToken = (\<lambda>secret deviceID. Inr (deviceID @ ''/'' @ secret)),
      now = 1752624000000000000,
      db_fault = (\<lambda>k. None)\<rparr>"

definition example_device :: Device where
  "example_device =
     \<lparr>ID = 7, SerialNumber = ''SN-0007'', DeviceID = ''aa:bb:cc:dd:ee:ff'',
      ClientID = ''6f1c'', Token = ''t0'', ActivationCode = ''123456'', Challenge = ''c0ffee'',
      ActivationVersion = 1, Activated = False, ActivatedAt = None, LastSeen = 0,
      CreatedAt = 0, UpdatedAt = 0\<rparr>"

definition activated_device :: Device where
  "activated_device = example_device\<lparr>Activated := True, ActivatedAt := Some 5\<rparr>"

definition update_fails_env :: service_env where
  "update_fails_env = example_env\<lparr>db_fault := (\<lambda>k. if k = 1 then Some ''lock wait timeout'' else None)\<rparr>"

definition ota_headers :: http_header where
  "ota_headers = no_headers(''device-id'' := ''aa:bb:cc:dd:ee:ff'', ''client-id'' := ''6f1c'')"

section \<open>Task callbacks (src/task/callbacks.go)\<close>

text \<open>
  A Go value of type \<open>interface{}\<close>, as far as the callbacks build one: nil, a string, a
  \<open>map[string]interface{}\<close>, or any other value, named by a number.
\<close>

datatype go_value =
    NilValue
  | StringValue string
  | MapValue "string \<Rightarrow> go_value option"
  | OtherValue nat

text \<open>
  A value of type \<open>error\<close> is the nil interface or carries the text its method \<open>Error\<close>
  returns. A panic is raised with a value: by the callback, or by the runtime when \<open>Error\<close> is
  called on the nil interface. A call either returns or panics.
\<close>

datatype go_error = NilError | ErrorText string

datatype panic_value = NilPointerDereference | Raised go_value

datatype outcome = Returns | Panics panic_value

text \<open>
  The callback is a Go function; of what it does the model keeps how a call of it ends.
  \<open>taskCallback\<close> is \<open>None\<close> for the nil function.
\<close>

record CallBack =
  taskCallback :: "(go_value \<Rightarrow> outcome) option"

definition NewCallBack :: "(go_value \<Rightarrow> outcome) option \<Rightarrow> CallBack" where
  "NewCallBack callback = \<lparr>taskCallback = callback\<rparr>"

text \<open>
  What a goroutine started by \<open>OnComplete\<close> or \<open>OnError\<close> has done when it is over: the
  arguments it has called the callback with, the lines it has logged (message and the value of
  the field \<open>panic\<close>), and how its function ended; \<open>Panics\<close> there is a panic that leaves the
  goroutine and ends the process.
\<close>

record goroutine =
  called_with :: "go_value list"
  logged :: "(string \<times> panic_value) list"
  ended :: outcome

text \<open>
  The deferred function of both goroutines: \<open>recover()\<close> stops a panic of the body and returns
  its value, which is then logged under the given message; without a panic it returns nil and
  nothing is logged.
\<close>

definition deferred_recover :: "string \<Rightarrow> go_value list \<times> outcome \<Rightarrow> goroutine" where
  "deferred_recover message body =
     (case snd body of
        Returns \<Rightarrow> \<lparr>called_with = fst body, logged = [], ended = Returns\<rparr>
      | Panics r \<Rightarrow> \<lparr>called_with = fst body, logged = [(message, r)], ended = Returns\<rparr>)"

text \<open>
  \<open>OnComplete\<close> and \<open>OnError\<close>: how the call itself ends, and the goroutines it has started.
  The \<open>go\<close> statement returns at once.
\<close>

definition OnComplete :: "CallBack \<Rightarrow> go_value \<Rightarrow> outcome \<times> goroutine list" where
  "OnComplete cb result =
     (case taskCallback cb of
        None \<Rightarrow> (Returns, [])
      | Some callback \<Rightarrow>
          (Returns, [deferred_recover ''Callback panic recovered'' ([result], callback result)]))"

definition OnError :: "CallBack \<Rightarrow> go_error \<Rightarrow> outcome \<times> goroutine list" where
  "OnError cb err =
     (case taskCallback cb of
        None \<Rightarrow> (Returns, [])
      | Some callback \<Rightarrow>
          (Returns,
           [deferred_recover ''Error callback panic recovered''
              (case err of
                 NilError \<Rightarrow> ([], Panics NilPointerDereference)
               | ErrorText text \<Rightarrow>
                   (let result = MapValue [''error'' \<mapsto> StringValue text,
                                           ''status'' \<mapsto> StringValue ''failed'']
                    in ([result], callback result)))]))"

definition panicking_callback :: "go_value \<Rightarrow> outcome" where
  "panicking_callback result = Panics (Raised (StringValue ''session is gone''))"

section \<open>Properties\<close>

subsection \<open>Resource pool\<close>

declare init_loop.simps [simp del] refill_loop.simps [simp del]

lemma Get_inv: "pool_inv p \<Longrightarrow> pool_inv (snd (Get c p))"
  by (auto simp: Get_def pool_inv_def idle_def split: list.splits sum.splits)

lemma Put_inv: "pool_inv p \<Longrightarrow> pool_inv (snd (Put d r p))"
  by (auto simp: Put_def pool_inv_def idle_def chan_cap_def Let_def)

lemma refill_loop_inv: "pool_inv p \<Longrightarrow> pool_inv (refill_loop cr i needed p)"
proof (induction cr i needed p rule: refill_loop.induct)
  case (1 cr i needed p)
  show ?case
  proof (cases "i < needed \<and> totalCount p < MaxSize (config p)")
    case False
    then show ?thesis using "1.prems" by (subst refill_loop.simps) auto
  next
    case True
    show ?thesis
    proof (cases "cr (nat i)")
      case (Inl e)
      then show ?thesis using True 1 by (subst refill_loop.simps) simp
    next
      case (Inr r)
      show ?thesis
      proof (cases "int (length (resources p)) < chan_cap p")
        case room: True
        have "pool_inv (p\<lparr>resources := resources p @ [r], totalCount := totalCount p + 1\<rparr>)"
          using "1.prems" True by (simp add: pool_inv_def idle_def)
        then show ?thesis
          using True Inr room "1.IH"(2) by (subst refill_loop.simps) simp
      next
        case full: False
        have "pool_inv (p\<lparr>destroyed := destroyed p @ [r]\<rparr>)"
          using "1.prems" by (simp add: pool_inv_def idle_def)
        then show ?thesis
          using True Inr full "1.IH"(3) by (subst refill_loop.simps) simp
      qed
    qed
  qed
qed

lemma refillPool_inv: "pool_inv p \<Longrightarrow> pool_inv (refillPool cr p)"
  by (simp add: refillPool_def Let_def refill_loop_inv)

lemma pool_step_inv: "pool_inv p \<Longrightarrow> pool_inv (pool_step p op)"
  by (cases op) (simp_all add: Get_inv Put_inv refillPool_inv)

lemma pool_run_inv: "pool_inv p \<Longrightarrow> pool_inv (pool_run p ops)"
  unfolding pool_run_def by (induction ops arbitrary: p) (simp_all add: pool_step_inv)

lemma init_loop_inv:
  "init_loop cr i p = Inr q \<Longrightarrow> idle p + inUseCount p = totalCount p \<Longrightarrow> totalCount p = i \<Longrightarrow>
   i \<le> MinSize (config p) \<Longrightarrow> MinSize (config p) \<le> MaxSize (config p) \<Longrightarrow>
   pool_inv q \<and> config q = config p"
proof (induction cr i p rule: init_loop.induct)
  case (1 cr i p)
  show ?case
  proof (cases "i < MinSize (config p)")
    case False
    with "1.prems" have "q = p" by (subst (asm) init_loop.simps) simp
    with False "1.prems" show ?thesis by (simp add: pool_inv_def)
  next
    case True
    show ?thesis
    proof (cases "cr (nat i)")
      case (Inl e)
      with True "1.prems"(1) show ?thesis by (subst (asm) init_loop.simps) simp
    next
      case (Inr r)
      let ?p' = "p\<lparr>resources := resources p @ [r], totalCount := totalCount p + 1\<rparr>"
      from True Inr "1.prems"(1) have run: "init_loop cr (i + 1) ?p' = Inr q"
        by (subst (asm) init_loop.simps) simp
      have "pool_inv q \<and> config q = config ?p'"
        using "1.IH" [OF True Inr run] "1.prems"(2-5) True by (simp add: idle_def)
      then show ?thesis by simp
    qed
  qed
qed

lemma NewResourcePool_inv:
  assumes "NewResourcePool factory cfg = Inr p"
  shows "pool_inv p \<and> config p = cfg"
proof -
  from assms obtain cr where f: "factory = Some cr"
    by (cases factory) (simp_all add: NewResourcePool_def)
  let ?p0 = "\<lparr>config = cfg, resources = [], totalCount = 0, inUseCount = 0,
              closed = False, destroyed = []\<rparr> :: 'a ResourcePool"
  from assms f have ok: "\<not> (MinSize cfg < 0 \<or> MaxSize cfg < MinSize cfg)"
    by (auto simp: NewResourcePool_def split: if_splits)
  with assms f have "init_loop cr 0 ?p0 = Inr p"
    by (simp add: NewResourcePool_def)
  from init_loop_inv [OF this] ok show ?thesis by (simp add: idle_def)
qed

lemma Get_config: "config (snd (Get c p)) = config p"
  by (simp add: Get_def split: list.splits sum.splits)

lemma Put_config: "config (snd (Put d r p)) = config p"
  by (simp add: Put_def Let_def)

lemma refill_loop_config: "config (refill_loop cr i needed p) = config p"
proof (induction cr i needed p rule: refill_loop.induct)
  case (1 cr i needed p)
  then show ?case
    by (subst refill_loop.simps) (simp split: sum.splits)
qed

lemma refillPool_config: "config (refillPool cr p) = config p"
  by (simp add: refillPool_def Let_def refill_loop_config)

lemma pool_step_config: "config (pool_step p op) = config p"
  by (cases op) (simp_all add: Get_config Put_config refillPool_config)

lemma pool_run_config: "config (pool_run p ops) = config p"
  unfolding pool_run_def by (induction ops arbitrary: p) (simp_all add: pool_step_config)

lemma example_pool_new: "NewResourcePool (Some example_factory) example_config = Inr example_pool"
  by (simp add: NewResourcePool_def example_config_def example_pool_def example_factory_def
      init_loop.simps)

lemma example_leased_eq:
  "example_leased =
     \<lparr>config = example_config, resources = [], totalCount = 1, inUseCount = 1,
      closed = False, destroyed = []\<rparr>"
  by (simp add: example_leased_def example_pool_def Get_def)

text \<open>
  C1. Counter invariant of the pool: after any sequence of \<open>Get\<close>, \<open>Put\<close> and maintenance
  ticks (\<open>refillPool\<close>), whatever the factory answers, on a pool that \<open>NewResourcePool\<close> has
  just built from the configuration \<open>cfg\<close>, the number of buffered instances plus
  \<open>inUseCount\<close> equals \<open>totalCount\<close>, and \<open>totalCount\<close> is at most \<open>cfg.MaxSize\<close>.
\<close>

theorem pool_counter_invariant:
  assumes "NewResourcePool factory cfg = Inr p0"
  shows "idle (pool_run p0 ops) + inUseCount (pool_run p0 ops) = totalCount (pool_run p0 ops)
         \<and> totalCount (pool_run p0 ops) \<le> MaxSize cfg"
proof -
  from NewResourcePool_inv [OF assms] have "pool_inv p0" and c: "config p0 = cfg"
    by simp_all
  then have "pool_inv (pool_run p0 ops)" by (simp add: pool_run_inv)
  moreover have "config (pool_run p0 ops) = cfg" using c by (simp add: pool_run_config)
  ultimately show ?thesis by (simp add: pool_inv_def)
qed

theorem pool_counter_invariant_witness:
  "NewResourcePool (Some example_factory) example_config = Inr example_pool
   \<and> idle (pool_run example_pool
        [OpGet (Inr (Some 7)), OpGet (Inr (Some 8)), OpGet (Inl ''down''), OpPut None (Some 8),
         OpPut None (Some 0), OpPut (Some ''busy'') (Some 5), OpRefill example_factory])
     + inUseCount (pool_run example_pool
        [OpGet (Inr (Some 7)), OpGet (Inr (Some 8)), OpGet (Inl ''down''), OpPut None (Some 8),
         OpPut None (Some 0), OpPut (Some ''busy'') (Some 5), OpRefill example_factory])
     = totalCount (pool_run example_pool
        [OpGet (Inr (Some 7)), OpGet (Inr (Some 8)), OpGet (Inl ''down''), OpPut None (Some 8),
         OpPut None (Some 0), OpPut (Some ''busy'') (Some 5), OpRefill example_factory])
   \<and> totalCount (pool_run example_pool
        [OpGet (Inr (Some 7)), OpGet (Inr (Some 8)), OpGet (Inl ''down''), OpPut None (Some 8),
         OpPut None (Some 0), OpPut (Some ''busy'') (Some 5), OpRefill example_factory])
     \<le> MaxSize example_config"
  using pool_counter_invariant [OF example_pool_new] example_pool_new by simp

text \<open>
  C2. Lease: on an open pool \<open>Get\<close> hands out the oldest buffered instance and increments
  \<open>inUseCount\<close> when the buffer is not empty; with an empty buffer and
  \<open>totalCount < MaxSize\<close> it calls the factory, and either leases the new instance, incrementing
  \<open>totalCount\<close> and \<open>inUseCount\<close>, or returns the factory's error (wrapped) and leaves the
  pool, so also \<open>totalCount\<close>, as it was; with an empty buffer and
  \<open>totalCount \<ge> MaxSize\<close> it fails with the pool-exhausted error.
\<close>

theorem Get_lease:
  assumes "\<not> closed p"
  shows "(resources p = r # rs \<longrightarrow>
            Get c p = (Inr r, p\<lparr>resources := rs, inUseCount := inUseCount p + 1\<rparr>))
       \<and> (resources p = [] \<and> totalCount p < MaxSize (config p) \<and> c = Inr r' \<longrightarrow>
            Get c p = (Inr r', p\<lparr>totalCount := totalCount p + 1,
                                  inUseCount := inUseCount p + 1\<rparr>))
       \<and> (resources p = [] \<and> totalCount p < MaxSize (config p) \<and> c = Inl e \<longrightarrow>
            Get c p = (Inl (CreateFailed e), p) \<and> totalCount (snd (Get c p)) = totalCount p)
       \<and> (resources p = [] \<and> \<not> totalCount p < MaxSize (config p) \<longrightarrow>
            Get c p = (Inl PoolExhausted, p))"
  using assms by (simp add: Get_def)

theorem Get_lease_witness:
  "Get (Inl ''unused'') example_pool
     = (Inr (Some 0), example_pool\<lparr>resources := [], inUseCount := 1\<rparr>)
   \<and> Get (Inr (Some 4)) example_leased
     = (Inr (Some 4), example_leased\<lparr>totalCount := 2, inUseCount := 2\<rparr>)
   \<and> Get (Inl ''no backend'') example_leased = (Inl (CreateFailed ''no backend''), example_leased)
   \<and> Get (Inr (Some 5)) (example_leased\<lparr>totalCount := 2, inUseCount := 2\<rparr>)
     = (Inl PoolExhausted, example_leased\<lparr>totalCount := 2, inUseCount := 2\<rparr>)"
proof -
  have open1: "\<not> closed example_pool" by (simp add: example_pool_def)
  have open2: "\<not> closed example_leased" by (simp add: example_leased_eq)
  have open3: "\<not> closed (example_leased\<lparr>totalCount := 2, inUseCount := 2\<rparr>)"
    by (simp add: example_leased_eq)
  show ?thesis
    using Get_lease [OF open1, of "Some 0" "[]" "Inl ''unused''"]
      Get_lease [OF open2, of _ _ "Inr (Some 4)" "Some 4"]
      Get_lease [OF open2, of _ _ "Inl ''no backend''" _ "''no backend''"]
      Get_lease [OF open3, of _ _ "Inr (Some 5)"]
    by (simp add: example_pool_def example_leased_eq example_config_def)
qed

text \<open>
  C3. Return, as the code does it: \<open>Put\<close> of a nil resource fails and changes nothing. On a
  closed pool the returned instance is handed to \<open>factory.Destroy\<close> and no counter changes
  (\<open>inUseCount\<close> is not decremented). On an open pool \<open>Put\<close> decrements \<open>inUseCount\<close>; then
  the instance goes to the back of the idle buffer when the buffer has space, else it is handed
  to \<open>factory.Destroy\<close> and \<open>totalCount\<close> is decremented. Where \<open>Destroy\<close> is called, \<open>Put\<close>
  returns its outcome.
\<close>

theorem Put_return:
  "(resource = None \<longrightarrow> Put d resource p = (Some ResourceNil, p))
   \<and> (resource \<noteq> None \<and> closed p \<longrightarrow>
        Put d resource p =
          (map_option DestroyFailed d, p\<lparr>destroyed := destroyed p @ [resource]\<rparr>))
   \<and> (resource \<noteq> None \<and> \<not> closed p \<and> idle p < chan_cap p \<longrightarrow>
        Put d resource p =
          (None, p\<lparr>inUseCount := inUseCount p - 1, resources := resources p @ [resource]\<rparr>))
   \<and> (resource \<noteq> None \<and> \<not> closed p \<and> \<not> idle p < chan_cap p \<longrightarrow>
        Put d resource p =
          (map_option DestroyFailed d,
           p\<lparr>inUseCount := inUseCount p - 1, totalCount := totalCount p - 1,
             destroyed := destroyed p @ [resource]\<rparr>))"
  by (simp add: Put_def Let_def idle_def chan_cap_def)

theorem Put_return_witness:
  "Put None None example_leased = (Some ResourceNil, example_leased)
   \<and> Put (Some ''stuck'') (Some 0) (Close example_leased)
     = (Some (DestroyFailed ''stuck''), (Close example_leased)\<lparr>destroyed := [Some 0]\<rparr>)
   \<and> Put None (Some 0) example_leased
     = (None, example_leased\<lparr>inUseCount := 0, resources := [Some 0]\<rparr>)
   \<and> Put None (Some 3) (example_leased\<lparr>resources := [Some 0, Some 1]\<rparr>)
     = (None, example_leased\<lparr>inUseCount := 0, totalCount := 0,
          resources := [Some 0, Some 1], destroyed := [Some 3]\<rparr>)"
  using Put_return [of None None example_leased]
    Put_return [of "Some 0" "Some ''stuck''" "Close example_leased"]
    Put_return [of "Some 0" None example_leased]
    Put_return [of "Some 3" None "example_leased\<lparr>resources := [Some 0, Some 1]\<rparr>"]
  by (simp add: example_leased_eq Close_def example_config_def idle_def chan_cap_def)

text \<open>
  The claim as worded fails on a closed pool: the pool built by \<open>NewResourcePool\<close>, leased
  once and then closed has \<open>inUseCount = 1\<close>, and still has it after the leased instance is
  returned.
\<close>

theorem Put_closed_counterexample:
  "closed (Close example_leased) \<and> inUseCount (Close example_leased) = 1
   \<and> inUseCount (snd (Put None (Some 0) (Close example_leased))) = 1
   \<and> destroyed (snd (Put None (Some 0) (Close example_leased))) = [Some 0]"
  by (simp add: example_leased_eq Close_def Put_def)

subsection \<open>Think tags\<close>

lemma openai_loop_no_markers:
  "''<think>'' \<notin> set (openai_loop a cs) \<and> ''</think>'' \<notin> set (openai_loop a cs)"
  by (induction a cs rule: openai_loop.induct) (auto simp: handleThinkTags_def split: if_splits)

lemma openai_loop_append:
  "openai_loop a (xs @ ys) = openai_loop a xs @ openai_loop (active_after a xs) ys"
  by (induction a xs rule: openai_loop.induct) (auto split: prod.splits)

lemma openai_loop_inactive:
  "Some ''</think>'' \<notin> set cs \<Longrightarrow> openai_loop False cs = [] \<and> active_after False cs = False"
  by (induction "False" cs rule: openai_loop.induct) (auto simp: handleThinkTags_def)

lemma openai_loop_block:
  assumes "Some ''</think>'' \<notin> set mid"
  shows "openai_loop a (pre @ Some ''<think>'' # mid @ Some ''</think>'' # post)
           = openai_loop a pre @ openai_loop True post"
proof -
  have "openai_loop False (mid @ Some ''</think>'' # post) = openai_loop True post"
    using openai_loop_inactive [OF assms]
    by (simp add: openai_loop_append handleThinkTags_def)
  then have "openai_loop b (Some ''<think>'' # mid @ Some ''</think>'' # post)
               = openai_loop True post" for b
    by (simp add: handleThinkTags_def)
  then show ?thesis by (simp add: openai_loop_append)
qed

lemma ollama_loop_openai:
  "ollama_loop a rs = openai_loop a (map (Some \<circ> fst) (upto_done rs))"
  by (induction a rs rule: ollama_loop.induct) (auto split: prod.splits)

text \<open>
  C4. Think blocks, as the code filters them: in what either receive loop forwards to the
  output channel, no element is the chunk \<open><think>\<close> or the chunk \<open></think>\<close>, and the chunks
  from a chunk equal to \<open><think>\<close> to the next chunk equal to \<open></think>\<close> leave no trace: the
  output is that of the chunks before the block followed by that of the chunks after it, read
  with forwarding switched on. The Ollama loop forwards what the OpenAI loop forwards on the
  responses up to the first one marked done. The markers are recognised only as whole chunks:
  any other non-empty chunk is forwarded unchanged while forwarding is on, whatever it
  contains.
\<close>

theorem think_blocks_suppressed:
  "''<think>'' \<notin> set (openai_loop a cs) \<and> ''</think>'' \<notin> set (openai_loop a cs)
   \<and> (Some ''</think>'' \<notin> set mid \<longrightarrow>
        openai_loop a (pre @ Some ''<think>'' # mid @ Some ''</think>'' # post)
          = openai_loop a pre @ openai_loop True post)
   \<and> ollama_loop a rs = openai_loop a (map (Some \<circ> fst) (upto_done rs))
   \<and> (c \<noteq> '''' \<and> c \<noteq> ''<think>'' \<and> c \<noteq> ''</think>'' \<longrightarrow>
        handleThinkTags c True = (c, True))"
  using openai_loop_no_markers [of a cs] openai_loop_block [of mid a pre post]
    ollama_loop_openai [of a rs]
  by (simp add: handleThinkTags_def)

theorem think_blocks_suppressed_witness:
  "Some ''</think>'' \<notin> set [Some ''plan'', None, Some ''<think>'', Some ''more'']
   \<and> openai_loop True
        ([Some ''Hi''] @ Some ''<think>'' # [Some ''plan'', None, Some ''<think>'', Some ''more'']
          @ Some ''</think>'' # [Some '''', Some ''Bye''])
      = [''Hi'', ''Bye'']
   \<and> ollama_loop True [(''Hi'', False), (''<think>'', False), (''plan'', False),
        (''</think>'', False), (''Bye'', True), (''late'', False)] = [''Hi'', ''Bye'']
   \<and> handleThinkTags ''<think>plan</think>'' True = (''<think>plan</think>'', True)"
  using think_blocks_suppressed [of True "[]"
      "[Some ''plan'', None, Some ''<think>'', Some ''more'']" "[Some ''Hi'']"
      "[Some '''', Some ''Bye'']"
      "[(''Hi'', False), (''<think>'', False), (''plan'', False),
        (''</think>'', False), (''Bye'', True), (''late'', False)]"
      "''<think>plan</think>''"]
  by (simp add: handleThinkTags_def)

text \<open>
  The claim as worded fails where a marker is not a chunk of its own: text enclosed in
  \<open><think>\<dots></think>\<close> inside one chunk, or after a marker that shares its chunk with a line
  break, is forwarded.
\<close>

theorem think_text_forwarded_counterexample:
  "openai_loop True [Some ''<think>secret plan</think>'', Some ''Hello'']
     = [''<think>secret plan</think>'', ''Hello'']
   \<and> openai_loop True [Some [CHR ''<'', CHR ''t'', CHR ''h'', CHR ''i'', CHR ''n'', CHR ''k'',
          CHR ''>'', CHR 0x0A], Some ''secret plan'', Some ''</think>'', Some ''Hello'']
     = [[CHR ''<'', CHR ''t'', CHR ''h'', CHR ''i'', CHR ''n'', CHR ''k'', CHR ''>'', CHR 0x0A],
        ''secret plan'', ''Hello'']"
  by (simp add: handleThinkTags_def)

subsection \<open>Connection upgrade\<close>

lemma verifyToken_true: "fst (verifyToken VerifyToken secret header)"
  by (simp add: verifyToken_def Let_def split: prod.splits)

text \<open>
  C5. \<open>verifyToken\<close> admits every request: whatever the request headers, the configured secret
  and the token verifier, so with the Authorization header missing, not of the form
  \<open>Bearer \<dots>\<close>, carrying a token the verifier rejects, or a token for another device id, it
  returns true; and \<open>handleWebSocket\<close> never answers with the 401 reply.
\<close>

theorem verifyToken_admits:
  "fst (verifyToken VerifyToken secret header)
   \<and> HttpError 401 ''Unauthorized''
       \<notin> set (fst (handleWebSocket VerifyToken cfg header upgrade lease activeConnections))"
  by (simp add: verifyToken_true handleWebSocket_def Let_def split: sum.splits)

theorem verifyToken_admits_witness:
  "verifyToken reject_all ''s3cret'' no_headers = (True, MissingAuthorization)
   \<and> verifyToken reject_all ''s3cret'' (no_headers(''Authorization'' := ''Basic abc''))
       = (True, MalformedAuthorization)
   \<and> verifyToken reject_all ''s3cret'' (no_headers(''Authorization'' := ''Bearer abc''))
       = (True, TokenRejected (Some ''signature is invalid''))
   \<and> verifyToken (\<lambda>secret token. (True, ''aa:bb'', None)) ''s3cret''
        (no_headers(''Authorization'' := ''Bearer abc'', ''Device-Id'' := ''cc:dd''))
       = (True, DeviceIdMismatch ''cc:dd'' ''aa:bb'')"
  using verifyToken_admits [of reject_all "''s3cret''" no_headers]
  by (simp add: verifyToken_def reject_all_def no_headers_def HasPrefix_def TrimPrefix_def)

text \<open>
  C6. Pool exhaustion at connect, as the code handles it: when the upgrade has succeeded and
  leasing the provider set fails, \<open>handleWebSocket\<close> logs the failure and closes the new
  connection; nothing is written to the connection, no handler is started for it, and the map
  of active connections is left as it was.
\<close>

theorem lease_failure_closes:
  "handleWebSocket VerifyToken cfg header (Inr conn) (Inl err) activeConnections
     = ([LogLeaseFailed err, ConnClose conn], activeConnections)"
  by (simp add: verifyToken_true handleWebSocket_def)

theorem lease_failure_closes_witness:
  "handleWebSocket reject_all example_server_config
      (no_headers(''Authorization'' := ''Bearer abc'')) (Inr ''0xc000126000'')
      (Inl ''pool exhausted'') [''0xc000018000'' \<mapsto> (1::nat)]
     = ([LogLeaseFailed ''pool exhausted'', ConnClose ''0xc000126000''],
        [''0xc000018000'' \<mapsto> 1])"
  using lease_failure_closes [of reject_all example_server_config
      "no_headers(''Authorization'' := ''Bearer abc'')" "''0xc000126000''" "''pool exhausted''"
      "[''0xc000018000'' \<mapsto> (1::nat)]"]
  by simp

text \<open>
  The claim as worded fails: on a failed lease the trace of the handler holds no message
  written to the connection, so no \<open>error\<close> envelope reaches the client.
\<close>

theorem lease_failure_no_envelope_counterexample:
  "fst (handleWebSocket reject_all example_server_config no_headers
         (Inr ''0xc000126000'') (Inl ''pool exhausted'') (Map.empty :: string \<rightharpoonup> nat))
     = [LogLeaseFailed ''pool exhausted'', ConnClose ''0xc000126000'']"
  by (simp add: handleWebSocket_def verifyToken_true)

subsection \<open>Devices and activation\<close>

text \<open>
  C7. Activation, as the code does it: \<open>ActivateDeviceAndGetToken\<close> returns a token exactly
  when the lookup and the update of the device succeed in the database, the device with the
  given id exists, the presented challenge equals the stored one, the configured HMAC key is
  not empty, the presented HMAC is the hex encoding of HMAC-SHA256 over the challenge with that
  key, and the token generator succeeds; the token is the generator's, for the device's
  \<open>DeviceID\<close>. When the device is missing or the challenge, the key or the HMAC is wrong, it
  returns an error and leaves every row of the table, so the activated flag, the challenge and
  the activation code of the device, unchanged.
\<close>

theorem activation_token_iff:
  "(fst (ActivateDeviceAndGetToken env cfg deviceID challenge hmacHex rows) = Inr token)
     = (db_fault env 0 = None \<and> db_fault env 1 = None \<and>
        (case find (\<lambda>d. ID d = deviceID) rows of
           None \<Rightarrow> False
         | Some device \<Rightarrow>
             Challenge device = challenge \<and> Server_Device_HmacKey cfg \<noteq> '''' \<and>
             hmacHex = hex_EncodeToString
                         (hmac_sha256 env (Server_Device_HmacKey cfg) challenge) \<and>
             GenerateToken env (Server_Token cfg) (DeviceID device) = Inr token))
   \<and> ((case find (\<lambda>d. ID d = deviceID) rows of
          None \<Rightarrow> True
        | Some device \<Rightarrow>
            Challenge device \<noteq> challenge \<or> Server_Device_HmacKey cfg = '''' \<or>
            hmacHex \<noteq> hex_EncodeToString
                         (hmac_sha256 env (Server_Device_HmacKey cfg) challenge))
       \<longrightarrow> isl (fst (ActivateDeviceAndGetToken env cfg deviceID challenge hmacHex rows))
           \<and> snd (ActivateDeviceAndGetToken env cfg deviceID challenge hmacHex rows) = rows)"
  by (auto simp: ActivateDeviceAndGetToken_def First_def Updates_def VerifyHMAC_def Let_def
      split: option.splits sum.splits)

theorem activation_token_iff_witness:
  "fst (ActivateDeviceAndGetToken example_env example_server_config 7 ''c0ffee''
          ''6330666665656b3379'' [example_device]) = Inr ''aa:bb:cc:dd:ee:ff/s3cret''
   \<and> map Activated (snd (ActivateDeviceAndGetToken example_env example_server_config 7
          ''c0ffee'' ''6330666665656b3379'' [example_device])) = [True]
   \<and> ActivateDeviceAndGetToken example_env example_server_config 7 ''c0ffee''
          ''633066666565'' [example_device] = (Inl InvalidHMAC, [example_device])
   \<and> ActivateDeviceAndGetToken example_env example_server_config 8 ''c0ffee''
          ''6330666665656b3379'' [example_device]
        = (Inl (Database ErrRecordNotFound), [example_device])"
proof -
  have hex: "hex_EncodeToString ''c0ffeek3y'' = ''6330666665656b3379''"
    by (simp add: hex_EncodeToString_def hex_digit_def)
  have rows: "snd (ActivateDeviceAndGetToken example_env example_server_config 7 ''c0ffee''
      ''6330666665656b3379'' [example_device])
    = [example_device\<lparr>Activated := True, ActivatedAt := Some (now example_env),
         LastSeen := now example_env, UpdatedAt := now example_env\<rparr>]"
    by (simp add: ActivateDeviceAndGetToken_def First_def Updates_def VerifyHMAC_def hex
        example_env_def example_server_config_def example_device_def)
  have bad: "fst (ActivateDeviceAndGetToken example_env example_server_config 7 ''c0ffee''
      ''633066666565'' [example_device]) = Inl InvalidHMAC"
    by (simp add: ActivateDeviceAndGetToken_def First_def VerifyHMAC_def hex
        example_env_def example_server_config_def example_device_def)
  have missing: "fst (ActivateDeviceAndGetToken example_env example_server_config 8 ''c0ffee''
      ''6330666665656b3379'' [example_device]) = Inl (Database ErrRecordNotFound)"
    by (simp add: ActivateDeviceAndGetToken_def First_def example_env_def example_device_def)
  show ?thesis
    using activation_token_iff [of example_env example_server_config 7 "''c0ffee''"
        "''6330666665656b3379''" "[example_device]" "''aa:bb:cc:dd:ee:ff/s3cret''"]
      activation_token_iff [of example_env example_server_config 7 "''c0ffee''"
        "''633066666565''" "[example_device]"]
      activation_token_iff [of example_env example_server_config 8 "''c0ffee''"
        "''6330666665656b3379''" "[example_device]"]
      rows bad missing
    by (simp add: hex example_env_def example_server_config_def example_device_def
        prod_eq_iff)
qed

text \<open>
  The claim as worded fails in the direction from the four conditions to the token: with the
  device present, the challenge and the HMAC right and the key configured, a failure of the
  update statement in the database makes the call return an error.
\<close>

theorem activation_update_failure_counterexample:
  "find (\<lambda>d. ID d = 7) [example_device] = Some example_device
   \<and> Challenge example_device = ''c0ffee''
   \<and> Server_Device_HmacKey example_server_config = ''k3y''
   \<and> ''6330666665656b3379''
       = hex_EncodeToString (hmac_sha256 update_fails_env ''k3y'' ''c0ffee'')
   \<and> ActivateDeviceAndGetToken update_fails_env example_server_config 7 ''c0ffee''
        ''6330666665656b3379'' [example_device]
       = (Inl (Database (DBFailure ''lock wait timeout'')), [example_device])"
  by (simp add: ActivateDeviceAndGetToken_def First_def Updates_def VerifyHMAC_def
      hex_EncodeToString_def hex_digit_def update_fails_env_def example_env_def
      example_server_config_def example_device_def)

text \<open>
  C8. A websocket token is issued only for an activated device: when the reply of the OTA POST
  handler carries a token, the device looked up from the \<open>device-id\<close> and \<open>client-id\<close>
  headers exists and is activated, and the token is the one the generator has returned for its
  \<open>DeviceID\<close>; and for a device that is found and not activated \<open>GetDeviceToken\<close> returns
  the error "device not activated" and no token.
\<close>

theorem token_only_for_activated:
  "(handleOtaPost env cfg updateURL header body bins rows = StatusOK resp
      \<and> Websocket_Token resp \<noteq> '''' \<longrightarrow>
      (case IdentifyDevice env '''' (header ''device-id'') (header ''client-id'') rows of
         Inl err \<Rightarrow> False
       | Inr device \<Rightarrow>
           Activated device \<and>
           GenerateToken env (Server_Token cfg) (DeviceID device) = Inr (Websocket_Token resp)))
   \<and> (IdentifyDevice env '''' deviceID clientID rows = Inr device \<and> \<not> Activated device \<longrightarrow>
        GetDeviceToken env cfg deviceID clientID challenge hmacHex rows
          = (Inl DeviceNotActivated, rows))"
  by (auto simp: handleOtaPost_def GetDeviceToken_def Let_def
      split: sum.splits if_splits prod.splits)

theorem token_only_for_activated_witness:
  "handleOtaPost example_env example_server_config ''ws://host:8000'' ota_headers (Inr '''') []
       [activated_device]
     = StatusOK \<lparr>ServerTime_Timestamp = 1752624000000, ServerTime_TimezoneOffset = 480,
         Firmware_Version = ''1.0.0'', Firmware_URL = '''', Websocket_URL = ''ws://host:8000'',
         Websocket_Token = ''aa:bb:cc:dd:ee:ff/s3cret''\<rparr>
   \<and> IdentifyDevice example_env '''' ''aa:bb:cc:dd:ee:ff'' ''6f1c'' [activated_device]
     = Inr activated_device
   \<and> Activated activated_device
   \<and> handleOtaPost example_env example_server_config ''ws://host:8000'' ota_headers (Inr '''') []
       [example_device]
     = StatusOK \<lparr>ServerTime_Timestamp = 1752624000000, ServerTime_TimezoneOffset = 480,
         Firmware_Version = ''1.0.0'', Firmware_URL = '''', Websocket_URL = ''ws://host:8000'',
         Websocket_Token = ''''\<rparr>
   \<and> GetDeviceToken example_env example_server_config ''aa:bb:cc:dd:ee:ff'' ''6f1c''
       ''c0ffee'' ''6330666665656b3379'' [example_device]
     = (Inl DeviceNotActivated, [example_device])"
proof -
  have found: "IdentifyDevice example_env '''' ''aa:bb:cc:dd:ee:ff'' ''6f1c'' [d] = Inr d"
    if "DeviceID d = ''aa:bb:cc:dd:ee:ff''" for d
    using that by (simp add: IdentifyDevice_def First_def example_env_def)
  have act: "IdentifyDevice example_env '''' ''aa:bb:cc:dd:ee:ff'' ''6f1c'' [activated_device]
      = Inr activated_device"
    by (rule found) (simp add: activated_device_def example_device_def)
  have reg: "IdentifyDevice example_env '''' ''aa:bb:cc:dd:ee:ff'' ''6f1c'' [example_device]
      = Inr example_device \<and> \<not> Activated example_device"
    by (simp add: found example_device_def)
  have hdr: "ota_headers ''device-id'' = ''aa:bb:cc:dd:ee:ff''"
    "ota_headers ''client-id'' = ''6f1c''"
    by (simp_all add: ota_headers_def no_headers_def)
  have ota: "handleOtaPost example_env example_server_config ''ws://host:8000'' ota_headers
      (Inr '''') [] [activated_device]
     = StatusOK \<lparr>ServerTime_Timestamp = 1752624000000, ServerTime_TimezoneOffset = 480,
         Firmware_Version = ''1.0.0'', Firmware_URL = '''', Websocket_URL = ''ws://host:8000'',
         Websocket_Token = ''aa:bb:cc:dd:ee:ff/s3cret''\<rparr>"
    by (simp add: handleOtaPost_def hdr act)
      (simp add: example_env_def example_server_config_def activated_device_def
        example_device_def)
  have ota': "handleOtaPost example_env example_server_config ''ws://host:8000'' ota_headers
      (Inr '''') [] [example_device]
     = StatusOK \<lparr>ServerTime_Timestamp = 1752624000000, ServerTime_TimezoneOffset = 480,
         Firmware_Version = ''1.0.0'', Firmware_URL = '''', Websocket_URL = ''ws://host:8000'',
         Websocket_Token = ''''\<rparr>"
    using reg by (simp add: handleOtaPost_def hdr) (simp add: example_env_def)
  show ?thesis
    using token_only_for_activated [where env = example_env and cfg = example_server_config
        and updateURL = "''ws://host:8000''" and header = ota_headers and body = "Inr ''''"
        and bins = "[]" and rows = "[activated_device]"
        and resp = "\<lparr>ServerTime_Timestamp = 1752624000000, ServerTime_TimezoneOffset = 480,
          Firmware_Version = ''1.0.0'', Firmware_URL = '''',
          Websocket_URL = ''ws://host:8000'',
          Websocket_Token = ''aa:bb:cc:dd:ee:ff/s3cret''\<rparr>"]
      token_only_for_activated [where env = example_env and cfg = example_server_config
        and rows = "[example_device]" and deviceID = "''aa:bb:cc:dd:ee:ff''"
        and clientID = "''6f1c''" and device = example_device and challenge = "''c0ffee''"
        and hmacHex = "''6330666665656b3379''"]
      ota ota' act reg
    by (simp add: hdr)
qed

subsection \<open>OTA endpoint\<close>

declare versionLess_loop.simps [simp del]

lemma versionLess_loop_lexord:
  "i \<le> length aV \<Longrightarrow> i \<le> length bV \<Longrightarrow>
   versionLess_loop aV bV i \<longleftrightarrow> (drop i aV, drop i bV) \<in> lexord {(x, y). x < y}"
proof (induction aV bV i rule: versionLess_loop.induct)
  case (1 aV bV i)
  show ?case
  proof (cases "i < length aV \<and> i < length bV")
    case True
    then have a: "drop i aV = aV ! i # drop (Suc i) aV" and b: "drop i bV = bV ! i # drop (Suc i) bV"
      by (simp_all add: Cons_nth_drop_Suc)
    show ?thesis
    proof (cases "aV ! i = bV ! i")
      case same: True
      with True "1.IH" have "versionLess_loop aV bV (i + 1)
          \<longleftrightarrow> (drop (i + 1) aV, drop (i + 1) bV) \<in> lexord {(x, y). x < y}"
        by simp
      with True same show ?thesis
        by (subst versionLess_loop.simps) (simp add: a b)
    next
      case False
      with True show ?thesis
        by (subst versionLess_loop.simps) (simp add: a b)
    qed
  next
    case False
    with "1.prems" have "i = length aV \<or> (i = length bV \<and> i < length aV)" by auto
    then show ?thesis
    proof
      assume "i = length aV"
      then show ?thesis
        using "1.prems" by (subst versionLess_loop.simps) (auto simp: neq_Nil_conv [symmetric])
    next
      assume "i = length bV \<and> i < length aV"
      then show ?thesis
        by (subst versionLess_loop.simps) simp
    qed
  qed
qed

lemma versionLess_lexord:
  "versionLess a b \<longleftrightarrow> (version_components a, version_components b) \<in> lexord {(x, y). x < y}"
  using versionLess_loop_lexord [of 0 "version_components a" "version_components b"]
  by (simp add: versionLess_def)

lemma versionLess_less: "versionLess a b \<longleftrightarrow> version_components a < version_components b"
  by (simp add: versionLess_lexord list_less_def)

lemma set_insert_by: "set (insert_by cmp x xs) = insert x (set xs)"
  by (induction xs) auto

lemma set_sort_Slice: "set (sort_Slice cmp xs) = set xs"
  unfolding sort_Slice_def by (induction xs) (simp_all add: set_insert_by)

lemma sorted_insert_by:
  fixes k :: "'a \<Rightarrow> 'b::linorder"
  assumes "\<And>x y. cmp x y \<longleftrightarrow> k y < k x"
  shows "sorted_wrt (\<lambda>x y. k y \<le> k x) xs \<Longrightarrow> sorted_wrt (\<lambda>x y. k y \<le> k x) (insert_by cmp x xs)"
  by (induction xs) (auto simp: assms set_insert_by)

lemma sorted_sort_Slice:
  fixes k :: "'a \<Rightarrow> 'b::linorder"
  assumes "\<And>x y. cmp x y \<longleftrightarrow> k y < k x"
  shows "sorted_wrt (\<lambda>x y. k y \<le> k x) (sort_Slice cmp xs)"
  unfolding sort_Slice_def
proof (induction xs)
  case Nil
  show ?case by simp
next
  case (Cons x xs)
  from sorted_insert_by [of cmp k, OF assms Cons] show ?case by simp
qed

lemma latest_bin_maximal:
  assumes "bins \<noteq> []"
  shows "latest_bin bins \<in> set bins" and "\<forall>b\<in>set bins. \<not> versionLess (latest_bin bins) b"
proof -
  let ?cmp = "\<lambda>bin_i bin_j. versionLess bin_j bin_i"
  let ?s = "sort_Slice ?cmp bins"
  have st: "set ?s = set bins" by (rule set_sort_Slice)
  with assms have ne: "?s \<noteq> []" by auto
  then obtain m rest where s: "?s = m # rest" by (cases ?s) auto
  then have m: "latest_bin bins = m" by (simp add: latest_bin_def)
  have "sorted_wrt (\<lambda>x y. version_components y \<le> version_components x) ?s"
    by (rule sorted_sort_Slice) (simp add: versionLess_less)
  with s have "\<forall>b\<in>set ?s. version_components b \<le> version_components m"
    by auto
  with st show "\<forall>b\<in>set bins. \<not> versionLess (latest_bin bins) b"
    by (auto simp: m versionLess_less)
  from s st show "latest_bin bins \<in> set bins" by (auto simp: m)
qed
text \<open>
  C10. \<open>versionLess\<close> orders two firmware file names by their components, which are the base
  name without the suffix \<open>.bin\<close>, split at the dots: the components are compared from the
  left, the first pair that differs decides by the order of strings, and if none differs the
  name with fewer components comes first (the lexicographic order of the component lists over
  the byte-wise order of strings). When \<open>ota_bin\<close> holds a firmware file, the OTA POST handler
  reports one of the files that no other file is above in this order: its base name in the
  URL, its base name without \<open>.bin\<close> as the version. Components are strings, not numbers:
  \<open>10\<close> is below \<open>9\<close>, so \<open>1.10.0.bin\<close> is below \<open>1.9.0.bin\<close>.
\<close>

theorem versionLess_string_order:
  "(versionLess a b \<longleftrightarrow>
      (Split (TrimSuffix (Base a) ''.bin'') (CHR ''.''),
       Split (TrimSuffix (Base b) ''.bin'') (CHR ''.'')) \<in> lexord {(x, y). x < y})
   \<and> (bins \<noteq> [] \<longrightarrow>
        latest_bin bins \<in> set bins \<and> (\<forall>b\<in>set bins. \<not> versionLess (latest_bin bins) b))
   \<and> (header ''device-id'' \<noteq> '''' \<and> bins \<noteq> [] \<longrightarrow>
        (case handleOtaPost env cfg updateURL header (Inr body_version) bins rows of
           StatusBadRequest err \<Rightarrow> False
         | StatusOK resp \<Rightarrow>
             Firmware_URL resp = ''/ota_bin/'' @ Base (latest_bin bins) \<and>
             Firmware_Version resp = TrimSuffix (Base (latest_bin bins)) ''.bin''))
   \<and> ''10'' < ''9''
   \<and> versionLess ''ota_bin/1.10.0.bin'' ''ota_bin/1.9.0.bin''"
proof -
  have order: "versionLess a b \<longleftrightarrow>
      (Split (TrimSuffix (Base a) ''.bin'') (CHR ''.''),
       Split (TrimSuffix (Base b) ''.bin'') (CHR ''.'')) \<in> lexord {(x, y). x < y}"
    using versionLess_lexord [of a b] by (simp add: version_components_def)
  have latest: "bins \<noteq> [] \<longrightarrow>
      latest_bin bins \<in> set bins \<and> (\<forall>b\<in>set bins. \<not> versionLess (latest_bin bins) b)"
    using latest_bin_maximal [of bins] by simp
  have reply: "header ''device-id'' \<noteq> '''' \<and> bins \<noteq> [] \<longrightarrow>
      (case handleOtaPost env cfg updateURL header (Inr body_version) bins rows of
         StatusBadRequest err \<Rightarrow> False
       | StatusOK resp \<Rightarrow>
           Firmware_URL resp = ''/ota_bin/'' @ Base (latest_bin bins) \<and>
           Firmware_Version resp = TrimSuffix (Base (latest_bin bins)) ''.bin'')"
    by (simp add: handleOtaPost_def Let_def)
  have str: "''10'' < ''9''"
    by (simp add: list_less_def less_char_def)
  have ex: "versionLess ''ota_bin/1.10.0.bin'' ''ota_bin/1.9.0.bin''"
    by (simp add: versionLess_def version_components_def Base_def TrimSuffix_def HasSuffix_def
        versionLess_loop.simps list_less_def less_char_def)
  from order latest reply str ex show ?thesis by blast
qed

theorem versionLess_string_order_witness:
  "latest_bin [''ota_bin/1.0.3.bin'', ''ota_bin/1.10.0.bin'', ''ota_bin/1.9.0.bin'']
     = ''ota_bin/1.9.0.bin''
   \<and> \<not> versionLess ''ota_bin/1.9.0.bin'' ''ota_bin/1.10.0.bin''
   \<and> versionLess ''ota_bin/1.9.bin'' ''ota_bin/1.9.0.bin''
   \<and> handleOtaPost example_env example_server_config ''ws://host:8000'' ota_headers
        (Inr ''1.0.0'') [''ota_bin/1.0.3.bin'', ''ota_bin/1.10.0.bin'', ''ota_bin/1.9.0.bin'']
        [example_device]
      = StatusOK \<lparr>ServerTime_Timestamp = 1752624000000, ServerTime_TimezoneOffset = 480,
          Firmware_Version = ''1.9.0'', Firmware_URL = ''/ota_bin/1.9.0.bin'',
          Websocket_URL = ''ws://host:8000'', Websocket_Token = ''''\<rparr>"
proof -
  let ?bins = "[''ota_bin/1.0.3.bin'', ''ota_bin/1.10.0.bin'', ''ota_bin/1.9.0.bin'']"
  have latest: "latest_bin ?bins = ''ota_bin/1.9.0.bin''"
    by (simp add: latest_bin_def sort_Slice_def versionLess_def version_components_def Base_def
        TrimSuffix_def HasSuffix_def versionLess_loop.simps list_less_def less_char_def)
  have short: "versionLess ''ota_bin/1.9.bin'' ''ota_bin/1.9.0.bin''"
    by (simp add: versionLess_def version_components_def Base_def TrimSuffix_def HasSuffix_def
        versionLess_loop.simps list_less_def less_char_def)
  have hdr: "ota_headers ''device-id'' = ''aa:bb:cc:dd:ee:ff''"
    "ota_headers ''client-id'' = ''6f1c''"
    by (simp_all add: ota_headers_def no_headers_def)
  have dev: "IdentifyDevice example_env '''' ''aa:bb:cc:dd:ee:ff'' ''6f1c'' [example_device]
      = Inr example_device \<and> \<not> Activated example_device"
    by (simp add: IdentifyDevice_def First_def example_env_def example_device_def)
  have rest: "handleOtaPost example_env example_server_config ''ws://host:8000'' ota_headers
        (Inr ''1.0.0'') ?bins [example_device]
      = StatusOK \<lparr>ServerTime_Timestamp = 1752624000000, ServerTime_TimezoneOffset = 480,
          Firmware_Version = Firmware_Version r, Firmware_URL = Firmware_URL r,
          Websocket_URL = ''ws://host:8000'', Websocket_Token = ''''\<rparr>"
    if "handleOtaPost example_env example_server_config ''ws://host:8000'' ota_headers
        (Inr ''1.0.0'') ?bins [example_device] = StatusOK r" for r
    using that dev by (auto simp: handleOtaPost_def hdr Let_def example_env_def)
  note inst = versionLess_string_order [where a = "''ota_bin/1.9.bin''"
      and b = "''ota_bin/1.9.0.bin''" and bins = ?bins and header = ota_headers
      and env = example_env and cfg = example_server_config
      and updateURL = "''ws://host:8000''" and body_version = "''1.0.0''"
      and rows = "[example_device]"]
  from inst have "\<forall>b\<in>set ?bins. \<not> versionLess (latest_bin ?bins) b" by simp
  then have above: "\<not> versionLess ''ota_bin/1.9.0.bin'' ''ota_bin/1.10.0.bin''"
    by (simp add: latest)
  have base: "Base ''ota_bin/1.9.0.bin'' = ''1.9.0.bin''"
    "TrimSuffix ''1.9.0.bin'' ''.bin'' = ''1.9.0''"
    by (simp_all add: Base_def TrimSuffix_def HasSuffix_def)
  from inst hdr have "case handleOtaPost example_env example_server_config ''ws://host:8000''
        ota_headers (Inr ''1.0.0'') ?bins [example_device] of
      StatusBadRequest err \<Rightarrow> False
    | StatusOK resp \<Rightarrow>
        Firmware_URL resp = ''/ota_bin/'' @ Base (latest_bin ?bins) \<and>
        Firmware_Version resp = TrimSuffix (Base (latest_bin ?bins)) ''.bin''"
    by simp
  then obtain r where r: "handleOtaPost example_env example_server_config ''ws://host:8000''
        ota_headers (Inr ''1.0.0'') ?bins [example_device] = StatusOK r"
    and "Firmware_URL r = ''/ota_bin/'' @ Base (latest_bin ?bins)"
    and "Firmware_Version r = TrimSuffix (Base (latest_bin ?bins)) ''.bin''"
    by (auto split: ota_reply.splits)
  then have fw: "Firmware_URL r = ''/ota_bin/1.9.0.bin''" "Firmware_Version r = ''1.9.0''"
    by (simp_all add: latest base)
  from rest [OF r] fw latest short above show ?thesis by simp
qed

subsection \<open>Task callbacks\<close>

lemma deferred_recover_ended: "ended (deferred_recover message body) = Returns"
  by (simp add: deferred_recover_def split: outcome.splits)

lemma deferred_recover_called: "called_with (deferred_recover message body) = fst body"
  by (simp add: deferred_recover_def split: outcome.splits)

text \<open>
  C9. For every callback and every result, \<open>OnComplete\<close> and \<open>OnError\<close> return normally and
  no goroutine they start ends in a panic: a panic of the callback is recovered in the
  goroutine and logged with its value. With a nil callback they start nothing. \<open>OnError\<close> calls
  the callback once, with a map that holds the error text under the key \<open>error\<close> and the
  string \<open>failed\<close> under the key \<open>status\<close>.
\<close>

theorem callbacks_contain_panics:
  "fst (OnComplete cb result) = Returns
   \<and> fst (OnError cb err) = Returns
   \<and> (\<forall>g \<in> set (snd (OnComplete cb result)) \<union> set (snd (OnError cb err)). ended g = Returns)
   \<and> (taskCallback cb = None \<longrightarrow> snd (OnComplete cb result) = [] \<and> snd (OnError cb err) = [])
   \<and> (taskCallback cb = Some callback \<and> callback result = Panics r \<longrightarrow>
        snd (OnComplete cb result)
          = [\<lparr>called_with = [result], logged = [(''Callback panic recovered'', r)],
              ended = Returns\<rparr>])
   \<and> (taskCallback cb = Some callback \<longrightarrow>
        map called_with (snd (OnError cb (ErrorText text)))
          = [[MapValue [''error'' \<mapsto> StringValue text, ''status'' \<mapsto> StringValue ''failed'']]])"
proof -
  have returns: "fst (OnComplete cb result) = Returns \<and> fst (OnError cb err) = Returns"
    by (simp add: OnComplete_def OnError_def split: option.splits)
  have contained:
    "\<forall>g \<in> set (snd (OnComplete cb result)) \<union> set (snd (OnError cb err)). ended g = Returns"
    by (auto simp: OnComplete_def OnError_def deferred_recover_ended split: option.splits)
  have nil: "taskCallback cb = None \<longrightarrow>
      snd (OnComplete cb result) = [] \<and> snd (OnError cb err) = []"
    by (simp add: OnComplete_def OnError_def)
  have logged: "taskCallback cb = Some callback \<and> callback result = Panics r \<longrightarrow>
      snd (OnComplete cb result)
        = [\<lparr>called_with = [result], logged = [(''Callback panic recovered'', r)],
            ended = Returns\<rparr>]"
    by (simp add: OnComplete_def deferred_recover_def)
  have delivered: "taskCallback cb = Some callback \<longrightarrow>
      map called_with (snd (OnError cb (ErrorText text)))
        = [[MapValue [''error'' \<mapsto> StringValue text, ''status'' \<mapsto> StringValue ''failed'']]]"
    by (simp add: OnError_def deferred_recover_called Let_def)
  from returns contained nil logged delivered show ?thesis by blast
qed

theorem callbacks_contain_panics_witness:
  "OnComplete (NewCallBack (Some panicking_callback)) (OtherValue 1)
     = (Returns,
        [\<lparr>called_with = [OtherValue 1],
          logged = [(''Callback panic recovered'', Raised (StringValue ''session is gone''))],
          ended = Returns\<rparr>])
   \<and> OnError (NewCallBack (Some panicking_callback)) (ErrorText ''timeout'')
     = (Returns,
        [\<lparr>called_with = [MapValue [''error'' \<mapsto> StringValue ''timeout'',
                                     ''status'' \<mapsto> StringValue ''failed'']],
          logged = [(''Error callback panic recovered'',
                     Raised (StringValue ''session is gone''))],
          ended = Returns\<rparr>])
   \<and> OnComplete (NewCallBack None) (OtherValue 1) = (Returns, [])
   \<and> OnError (NewCallBack None) (ErrorText ''timeout'') = (Returns, [])"
proof -
  have err: "OnError (NewCallBack (Some panicking_callback)) (ErrorText ''timeout'')
     = (Returns,
        [\<lparr>called_with = [MapValue [''error'' \<mapsto> StringValue ''timeout'',
                                     ''status'' \<mapsto> StringValue ''failed'']],
          logged = [(''Error callback panic recovered'',
                     Raised (StringValue ''session is gone''))],
          ended = Returns\<rparr>])"
    by (simp add: OnError_def NewCallBack_def panicking_callback_def deferred_recover_def)
  show ?thesis
    using callbacks_contain_panics [of "NewCallBack (Some panicking_callback)" "OtherValue 1"
        "ErrorText ''timeout''" panicking_callback "Raised (StringValue ''session is gone'')"
        "''timeout''"]
      callbacks_contain_panics [of "NewCallBack None" "OtherValue 1" "ErrorText ''timeout''"]
      err
    by (simp add: NewCallBack_def panicking_callback_def prod_eq_iff)
qed

end
